theory Spec2Isabelle
  imports Complex_Main "HOL-Library.Word" "HOL-Library.Multiset"
begin

section \<open>Numbers\<close>

text \<open>
  The Go sources compute with \<^verbatim>\<open>float64\<close>. A finite \<^verbatim>\<open>float64\<close> value is modelled
  as a \<^typ>\<open>real\<close> and arithmetic on finite values is exact (no rounding, no overflow).
  Go never panics on a floating-point division: dividing by zero yields an infinity or
  NaN. The type \<open>float64\<close> below adds these values, and it is used where the program
  divides by a quantity that can be zero (the scale computation of \<open>placeInBounds\<close>).
\<close>

datatype float64 = Fin real | PosInf | NegInf | NaN

text \<open>
  The quotient \<^verbatim>\<open>a / b\<close> of two finite values. A zero divisor here is always the
  difference of two finite values, which is \<open>+0\<close> in IEEE arithmetic, so the sign of the
  infinity is the sign of the dividend.
\<close>

definition float64_div :: "real \<Rightarrow> real \<Rightarrow> float64" where
  "float64_div a b =
     (if b \<noteq> 0 then Fin (a / b)
      else if 0 < a then PosInf
      else if a < 0 then NegInf
      else NaN)"

text \<open>The product \<^verbatim>\<open>a * b\<close>: NaN is absorbing and \<open>0 * Inf\<close> is NaN.\<close>

fun float64_mul :: "float64 \<Rightarrow> float64 \<Rightarrow> float64" where
  "float64_mul (Fin a) (Fin b) = Fin (a * b)"
| "float64_mul NaN _ = NaN"
| "float64_mul _ NaN = NaN"
| "float64_mul (Fin a) PosInf = (if 0 < a then PosInf else if a < 0 then NegInf else NaN)"
| "float64_mul (Fin a) NegInf = (if 0 < a then NegInf else if a < 0 then PosInf else NaN)"
| "float64_mul PosInf (Fin b) = (if 0 < b then PosInf else if b < 0 then NegInf else NaN)"
| "float64_mul NegInf (Fin b) = (if 0 < b then NegInf else if b < 0 then PosInf else NaN)"
| "float64_mul PosInf PosInf = PosInf"
| "float64_mul NegInf NegInf = PosInf"
| "float64_mul PosInf NegInf = NegInf"
| "float64_mul NegInf PosInf = NegInf"

text \<open>
  Go's \<^verbatim>\<open>math.Min\<close>: \<open>-Inf\<close> wins over everything, then NaN, then the lesser
  argument.
\<close>

fun math_Min :: "float64 \<Rightarrow> float64 \<Rightarrow> float64" where
  "math_Min NegInf _ = NegInf"
| "math_Min _ NegInf = NegInf"
| "math_Min NaN _ = NaN"
| "math_Min _ NaN = NaN"
| "math_Min PosInf y = y"
| "math_Min x PosInf = x"
| "math_Min (Fin a) (Fin b) = (if a < b then Fin a else Fin b)"

section \<open>Run-time panics\<close>

text \<open>
  A Go function that indexes a slice out of range, makes a slice of negative length or
  reads through a nil pointer panics. A function that can panic returns \<open>panic + 'a\<close>
  in the model.
\<close>

datatype panic = IndexOutOfRange | MakeSliceLenOutOfRange | NilTriangle

section \<open>simple_ops.go: the rectified linear unit\<close>

text \<open>
  Modelled from the spec: the type \<^verbatim>\<open>Tensor\<close> and its constructor \<^verbatim>\<open>NewTensor\<close> are
  declared in a file of the package \<^verbatim>\<open>nn\<close> that is not among the sources, and the spec
  leaves the tensor layers out of its scope. \<^verbatim>\<open>ReLU.Apply\<close> reads the fields
  \<^verbatim>\<open>Height\<close>, \<^verbatim>\<open>Width\<close>, \<^verbatim>\<open>Depth\<close> (Go \<^verbatim>\<open>int\<close>, 64 bits, read as signed) and
  \<^verbatim>\<open>Data\<close> (a slice of \<^verbatim>\<open>float32\<close>, which \<^verbatim>\<open>ReLU.Apply\<close> only compares with zero and
  copies). \<^verbatim>\<open>NewTensor\<close> returns a tensor of the given dimensions whose data are
  \<open>Height * Width * Depth\<close> zeros; the product wraps around as Go's does, and making a
  slice of negative length panics.
\<close>

record Tensor =
  Height :: "64 word"
  Width :: "64 word"
  Depth :: "64 word"
  Data :: "real list"




section \<open>The geometry library (model3d)\<close>

text \<open>
  Modelled from the spec: the package \<^verbatim>\<open>model3d\<close> is an external library whose source
  is not part of the repository. The spec's data model describes a coordinate as a
  3-component real-valued vector with add, subtract, scale, dot product, midpoint and
  distance, and a mesh as a collection of triangles, each an ordered triple of
  coordinates. Omitted fields of a Go struct literal are zero.
\<close>

record Coord3D =
  X :: real
  Y :: real
  Z :: real

definition Add :: "Coord3D \<Rightarrow> Coord3D \<Rightarrow> Coord3D" where
  "Add c c1 = \<lparr>X = X c + X c1, Y = Y c + Y c1, Z = Z c + Z c1\<rparr>"

definition Sub :: "Coord3D \<Rightarrow> Coord3D \<Rightarrow> Coord3D" where
  "Sub c c1 = \<lparr>X = X c - X c1, Y = Y c - Y c1, Z = Z c - Z c1\<rparr>"

definition Mul :: "Coord3D \<Rightarrow> Coord3D \<Rightarrow> Coord3D" where
  "Mul c c1 = \<lparr>X = X c * X c1, Y = Y c * Y c1, Z = Z c * Z c1\<rparr>"

definition Scale :: "Coord3D \<Rightarrow> real \<Rightarrow> Coord3D" where
  "Scale c s = \<lparr>X = X c * s, Y = Y c * s, Z = Z c * s\<rparr>"

definition Dot :: "Coord3D \<Rightarrow> Coord3D \<Rightarrow> real" where
  "Dot c c1 = X c * X c1 + Y c * Y c1 + Z c * Z c1"

definition Coord3D_Min :: "Coord3D \<Rightarrow> Coord3D \<Rightarrow> Coord3D" where
  "Coord3D_Min c c1 = \<lparr>X = min (X c) (X c1), Y = min (Y c) (Y c1), Z = min (Z c) (Z c1)\<rparr>"

definition Coord3D_Max :: "Coord3D \<Rightarrow> Coord3D \<Rightarrow> Coord3D" where
  "Coord3D_Max c c1 = \<lparr>X = max (X c) (X c1), Y = max (Y c) (Y c1), Z = max (Z c) (Z c1)\<rparr>"

text \<open>A triangle is Go's \<^verbatim>\<open>[3]Coord3D\<close>; a mesh holds triangles.\<close>

type_synonym Triangle = "Coord3D \<times> Coord3D \<times> Coord3D"

type_synonym Mesh = "Triangle list"

definition Triangle_coords :: "Triangle \<Rightarrow> Coord3D list" where
  "Triangle_coords t = (case t of (p1, p2, p3) \<Rightarrow> [p1, p2, p3])"

definition Mesh_coords :: "Mesh \<Rightarrow> Coord3D list" where
  "Mesh_coords m = concat (map Triangle_coords m)"

text \<open>
  \<^verbatim>\<open>Mesh.Min\<close> and \<^verbatim>\<open>Mesh.Max\<close>: the component-wise minimum and maximum over all
  vertices; the zero coordinate for a mesh without triangles.
\<close>

definition Mesh_Min :: "Mesh \<Rightarrow> Coord3D" where
  "Mesh_Min m =
     (case Mesh_coords m of
        [] \<Rightarrow> \<lparr>X = 0, Y = 0, Z = 0\<rparr>
      | c # cs \<Rightarrow> fold Coord3D_Min cs c)"

definition Mesh_Max :: "Mesh \<Rightarrow> Coord3D" where
  "Mesh_Max m =
     (case Mesh_coords m of
        [] \<Rightarrow> \<lparr>X = 0, Y = 0, Z = 0\<rparr>
      | c # cs \<Rightarrow> fold Coord3D_Max cs c)"

text \<open>\<^verbatim>\<open>Mesh.MapCoords\<close> applies a function to every vertex; \<^verbatim>\<open>Mesh.Scale\<close> scales every vertex.\<close>

definition MapCoords :: "(Coord3D \<Rightarrow> Coord3D) \<Rightarrow> Mesh \<Rightarrow> Mesh" where
  "MapCoords f m = map (\<lambda>t. case t of (p1, p2, p3) \<Rightarrow> (f p1, f p2, f p3)) m"

definition Mesh_Scale :: "Mesh \<Rightarrow> real \<Rightarrow> Mesh" where
  "Mesh_Scale m s = MapCoords (\<lambda>c. Scale c s) m"

section \<open>scene.go: the room layout\<close>

record RoomLayout =
  Width :: real
  Depth :: real

text \<open>
  \<^verbatim>\<open>CameraInfo\<close> returns the pair (position, target). The literal \<^verbatim>\<open>1e-5\<close> is the
  real number \<open>1/100000\<close>.
\<close>

definition CameraInfo :: "RoomLayout \<Rightarrow> Coord3D \<times> Coord3D" where
  "CameraInfo r =
     (\<lparr>X = 0, Y = - Depth r / 2 + 1 / 100000, Z = 1 / 2\<rparr>,
      \<lparr>X = 0, Y = Depth r / 2, Z = 1 / 2\<rparr>)"

subsection \<open>The backdrop\<close>

text \<open>
  Modelled from the spec: the mesh operations of \<^verbatim>\<open>model3d\<close> that \<^verbatim>\<open>CreateBackdrop\<close>
  calls. The spec describes the box mesh as six rectangular faces, each split into two
  triangles that share an edge and have the same outward normal; a neighbour of a
  triangle is a triangle of the mesh that shares an edge (two vertices) with it.
  \<open>NewMeshRect\<close> lists the faces bottom, top, front, back, left, right; the model
  compares triangles by value, which agrees with Go's pointer comparison as long as the
  triangles of the mesh are distinct.
\<close>

definition quad :: "Coord3D \<Rightarrow> Coord3D \<Rightarrow> Coord3D \<Rightarrow> Coord3D \<Rightarrow> Mesh" where
  "quad p1 p2 p3 p4 = [(p1, p2, p3), (p1, p3, p4)]"

definition NewMeshRect :: "Coord3D \<Rightarrow> Coord3D \<Rightarrow> Mesh" where
  "NewMeshRect mn mx =
     quad \<lparr>X = X mn, Y = Y mn, Z = Z mn\<rparr> \<lparr>X = X mn, Y = Y mx, Z = Z mn\<rparr>
          \<lparr>X = X mx, Y = Y mx, Z = Z mn\<rparr> \<lparr>X = X mx, Y = Y mn, Z = Z mn\<rparr>
   @ quad \<lparr>X = X mn, Y = Y mn, Z = Z mx\<rparr> \<lparr>X = X mx, Y = Y mn, Z = Z mx\<rparr>
          \<lparr>X = X mx, Y = Y mx, Z = Z mx\<rparr> \<lparr>X = X mn, Y = Y mx, Z = Z mx\<rparr>
   @ quad \<lparr>X = X mn, Y = Y mn, Z = Z mn\<rparr> \<lparr>X = X mx, Y = Y mn, Z = Z mn\<rparr>
          \<lparr>X = X mx, Y = Y mn, Z = Z mx\<rparr> \<lparr>X = X mn, Y = Y mn, Z = Z mx\<rparr>
   @ quad \<lparr>X = X mn, Y = Y mx, Z = Z mn\<rparr> \<lparr>X = X mn, Y = Y mx, Z = Z mx\<rparr>
          \<lparr>X = X mx, Y = Y mx, Z = Z mx\<rparr> \<lparr>X = X mx, Y = Y mx, Z = Z mn\<rparr>
   @ quad \<lparr>X = X mn, Y = Y mn, Z = Z mn\<rparr> \<lparr>X = X mn, Y = Y mn, Z = Z mx\<rparr>
          \<lparr>X = X mn, Y = Y mx, Z = Z mx\<rparr> \<lparr>X = X mn, Y = Y mx, Z = Z mn\<rparr>
   @ quad \<lparr>X = X mx, Y = Y mn, Z = Z mn\<rparr> \<lparr>X = X mx, Y = Y mx, Z = Z mn\<rparr>
          \<lparr>X = X mx, Y = Y mx, Z = Z mx\<rparr> \<lparr>X = X mx, Y = Y mn, Z = Z mx\<rparr>"

definition NewMeshTriangles :: "Triangle list \<Rightarrow> Mesh" where
  "NewMeshTriangles ts = ts"

text \<open>\<^verbatim>\<open>Triangle.Normal\<close>: the cross product of two edges, scaled to unit length.\<close>

definition Cross :: "Coord3D \<Rightarrow> Coord3D \<Rightarrow> Coord3D" where
  "Cross a b =
     \<lparr>X = Y a * Z b - Z a * Y b, Y = Z a * X b - X a * Z b, Z = X a * Y b - Y a * X b\<rparr>"

definition Normal :: "Triangle \<Rightarrow> Coord3D" where
  "Normal t =
     (case t of (p1, p2, p3) \<Rightarrow>
        (let c = Cross (Sub p2 p1) (Sub p3 p1) in Scale c (1 / sqrt (Dot c c))))"

text \<open>
  \<^verbatim>\<open>Mesh.Neighbors\<close>: the triangles of the mesh other than \<open>t\<close> that contain more than
  one of the vertices of \<open>t\<close>. \<^verbatim>\<open>Mesh.Remove\<close> takes a triangle out of the mesh.
\<close>

definition Neighbors :: "Mesh \<Rightarrow> Triangle \<Rightarrow> Triangle list" where
  "Neighbors m t =
     filter (\<lambda>t1. t1 \<noteq> t
        \<and> 1 < length (filter (\<lambda>p. p \<in> set (Triangle_coords t1)) (Triangle_coords t))) m"

definition Remove :: "Mesh \<Rightarrow> Triangle \<Rightarrow> Mesh" where
  "Remove m t = filter (\<lambda>t1. t1 \<noteq> t) m"

text \<open>
  \<^verbatim>\<open>Mesh.Iterate\<close> takes a snapshot \<open>ts\<close> of the triangles and calls \<open>f\<close> on each one
  that is still in the mesh when its turn comes. The function \<open>f\<close> changes the mesh and
  the variables it captures, here the pair of the mesh and a value \<open>a\<close>.
\<close>

fun Iterate ::
    "(Triangle \<Rightarrow> Mesh \<times> 'a \<Rightarrow> panic + Mesh \<times> 'a) \<Rightarrow> Triangle list \<Rightarrow> Mesh \<times> 'a
      \<Rightarrow> panic + Mesh \<times> 'a" where
  "Iterate f [] st = Inr st"
| "Iterate f (t # ts) (mesh, a) =
     (if t \<in> set mesh then
        (case f t (mesh, a) of
           Inl e \<Rightarrow> Inl e
         | Inr st \<Rightarrow> Iterate f ts st)
      else Iterate f ts (mesh, a))"

text \<open>
  The function literal that \<^verbatim>\<open>CreateBackdrop\<close> passes to \<^verbatim>\<open>Iterate\<close>: the state is the
  mesh and the variable \<^verbatim>\<open>walls\<close>. The inner loop takes the first neighbour whose
  normal has a dot product above \<open>0.99\<close> with the normal of \<open>t\<close>. Go ranges over the
  neighbours in an unspecified order: \<open>nord t ns\<close> is the order in which the neighbours
  \<open>ns\<close> of \<open>t\<close> come. When no neighbour qualifies, \<^verbatim>\<open>neighbor\<close> stays nil and a nil
  triangle is handed to the library; the spec treats this as fatal, and the model
  panics.
\<close>

definition backdropVisit ::
    "(Triangle \<Rightarrow> Triangle list \<Rightarrow> Triangle list) \<Rightarrow> Triangle \<Rightarrow> Mesh \<times> Mesh list
      \<Rightarrow> panic + Mesh \<times> Mesh list" where
  "backdropVisit nord t st =
     (case st of (mesh, walls) \<Rightarrow>
        (case find (\<lambda>n. 99 / 100 < Dot (Normal n) (Normal t)) (nord t (Neighbors mesh t)) of
           None \<Rightarrow> Inl NilTriangle
         | Some neighbor \<Rightarrow>
             Inr (Remove (Remove mesh neighbor) t, walls @ [NewMeshTriangles [t, neighbor]])))"

text \<open>
  \<^verbatim>\<open>CreateBackdrop\<close>. The snapshot of \<^verbatim>\<open>Iterate\<close> lists the triangles of the mesh in
  an unspecified order: \<open>order mesh\<close> is that list.
\<close>

definition CreateBackdrop ::
    "RoomLayout \<Rightarrow> (Mesh \<Rightarrow> Triangle list) \<Rightarrow> (Triangle \<Rightarrow> Triangle list \<Rightarrow> Triangle list)
      \<Rightarrow> panic + Mesh list" where
  "CreateBackdrop r order nord =
     (let mn = \<lparr>X = - Width r / 2, Y = - Depth r / 2, Z = 0\<rparr>;
          mx = \<lparr>X = Width r / 2, Y = Depth r / 2, Z = 1\<rparr>;
          mesh = NewMeshRect mn mx
      in case Iterate (backdropVisit nord) (order mesh) (mesh, []) of
           Inl e \<Rightarrow> Inl e
         | Inr (mesh1, walls) \<Rightarrow> Inr walls)"

text \<open>
  Two predicates for stating the decomposition: \<open>n\<close> is a coplanar neighbour of \<open>t\<close> in
  the mesh \<open>m\<close>, and the mesh \<open>m\<close> consists of distinct triangles each of which has
  exactly one coplanar neighbour, mutually.
\<close>

definition coplanarNeighbor :: "Mesh \<Rightarrow> Triangle \<Rightarrow> Triangle \<Rightarrow> bool" where
  "coplanarNeighbor m t n =
     (n \<in> set (Neighbors m t) \<and> 99 / 100 < Dot (Normal n) (Normal t))"

definition paired :: "Mesh \<Rightarrow> bool" where
  "paired m =
     (distinct m
      \<and> (\<forall>t \<in> set m. \<exists>!n. coplanarNeighbor m t n)
      \<and> (\<forall>t \<in> set m. \<forall>n. coplanarNeighbor m t n \<longrightarrow> coplanarNeighbor m n t))"

subsection \<open>Placement\<close>

text \<open>
  \<^verbatim>\<open>uniformRandom\<close> draws three numbers from the process-wide random source. The
  draws are arguments of the model: \<open>r1\<close>, \<open>r2\<close>, \<open>r3\<close> are the results of the three
  calls of \<^verbatim>\<open>rand.Float64()\<close>, each in \<open>[0, 1)\<close>.
\<close>

definition uniformRandom :: "real \<Rightarrow> real \<Rightarrow> real \<Rightarrow> Coord3D" where
  "uniformRandom r1 r2 r3 = \<lparr>X = r1, Y = r2, Z = r3\<rparr>"

text \<open>
  The locals \<^verbatim>\<open>maxScale\<close> and \<^verbatim>\<open>scale\<close> of \<^verbatim>\<open>placeInBounds\<close>. No test precedes the
  three divisions.
\<close>

definition maxScale :: "Coord3D \<Rightarrow> Coord3D \<Rightarrow> Mesh \<Rightarrow> float64" where
  "maxScale placeMin placeMax m =
     (let mn = Mesh_Min m; mx = Mesh_Max m;
          diff = Sub mx mn;
          pDiff = Sub placeMax placeMin
      in math_Min (float64_div (X pDiff) (X diff))
           (math_Min (float64_div (Y pDiff) (Y diff)) (float64_div (Z pDiff) (Z diff))))"

definition scale :: "Coord3D \<Rightarrow> Coord3D \<Rightarrow> Mesh \<Rightarrow> real \<Rightarrow> float64" where
  "scale placeMin placeMax m r0 =
     float64_mul (Fin (r0 * (9 / 10) + 1 / 10)) (maxScale placeMin placeMax m)"

text \<open>
  The second half of \<^verbatim>\<open>placeInBounds\<close>, for a finite scale \<open>s\<close>: the local
  \<^verbatim>\<open>translate\<close> and the mesh returned.
\<close>

definition translate :: "Coord3D \<Rightarrow> Coord3D \<Rightarrow> Mesh \<Rightarrow> real \<Rightarrow> real \<Rightarrow> real \<Rightarrow> real \<Rightarrow> Coord3D" where
  "translate placeMin placeMax m s r1 r2 r3 =
     (let m1 = Mesh_Scale m s;
          mn = Mesh_Min m1; mx = Mesh_Max m1;
          translateMin = Sub placeMin mn;
          translateMax = Sub placeMax mx
      in Mul (uniformRandom r1 r2 r3) (Sub translateMax translateMin))"

text \<open>
  \<^verbatim>\<open>placeInBounds\<close> always returns a mesh. When the scale is infinite or NaN, every
  coordinate of the scaled mesh is infinite or NaN, and so is every coordinate of the mesh
  returned; the model, whose coordinates are real, returns \<open>NonFinite\<close> for it.
  \<open>r0\<close> is the draw of \<^verbatim>\<open>rand.Float64()\<close> for the scale, \<open>r1\<close>, \<open>r2\<close>, \<open>r3\<close> are
  the draws of \<^verbatim>\<open>uniformRandom\<close>.
\<close>

datatype placement = Placed Mesh | NonFinite

definition placeInBounds ::
    "Coord3D \<Rightarrow> Coord3D \<Rightarrow> Mesh \<Rightarrow> real \<Rightarrow> real \<Rightarrow> real \<Rightarrow> real \<Rightarrow> placement" where
  "placeInBounds placeMin placeMax m r0 r1 r2 r3 =
     (case scale placeMin placeMax m r0 of
        Fin s \<Rightarrow>
          Placed (MapCoords (Add (translate placeMin placeMax m s r1 r2 r3)) (Mesh_Scale m s))
      | _ \<Rightarrow> NonFinite)"

text \<open>The locals \<^verbatim>\<open>placeMin\<close> and \<^verbatim>\<open>placeMax\<close> of \<^verbatim>\<open>RoomLayout.PlaceMesh\<close>.\<close>

definition placeMin :: "RoomLayout \<Rightarrow> Coord3D" where
  "placeMin r = \<lparr>X = - Width r / 2, Y = 0, Z = 0\<rparr>"

definition placeMax :: "RoomLayout \<Rightarrow> Coord3D" where
  "placeMax r = \<lparr>X = Width r / 2, Y = Depth r / 2, Z = 1\<rparr>"

definition PlaceMesh :: "RoomLayout \<Rightarrow> Mesh \<Rightarrow> real \<Rightarrow> real \<Rightarrow> real \<Rightarrow> real \<Rightarrow> placement" where
  "PlaceMesh r m r0 r1 r2 r3 = placeInBounds (placeMin r) (placeMax r) m r0 r1 r2 r3"

subsection \<open>The lights of a random scene\<close>

text \<open>
  Modelled from the spec: the colliders and focus points of \<^verbatim>\<open>render3d\<close> (an external
  library). A light is a sphere or a box; its bounds are those of the shape;
  \<^verbatim>\<open>Mid\<close> is the midpoint and \<^verbatim>\<open>Dist\<close> the Euclidean distance of two coordinates.
\<close>

datatype Collider = Sphere Coord3D real | Rect Coord3D Coord3D

fun Collider_Min :: "Collider \<Rightarrow> Coord3D" where
  "Collider_Min (Sphere c r) = Sub c \<lparr>X = r, Y = r, Z = r\<rparr>"
| "Collider_Min (Rect mn mx) = mn"

fun Collider_Max :: "Collider \<Rightarrow> Coord3D" where
  "Collider_Max (Sphere c r) = Add c \<lparr>X = r, Y = r, Z = r\<rparr>"
| "Collider_Max (Rect mn mx) = mx"

definition Mid :: "Coord3D \<Rightarrow> Coord3D \<Rightarrow> Coord3D" where
  "Mid c c1 = Scale (Add c c1) (1 / 2)"

definition Dist :: "Coord3D \<Rightarrow> Coord3D \<Rightarrow> real" where
  "Dist c c1 = sqrt (Dot (Sub c c1) (Sub c c1))"

record FocusPoint =
  Center :: Coord3D
  Radius :: real

datatype Object = MeshObject Mesh | LightObject Collider

text \<open>
  The variables \<^verbatim>\<open>objects\<close>, \<^verbatim>\<open>focusPoints\<close> and \<^verbatim>\<open>focusProbs\<close> of
  \<^verbatim>\<open>RandomScene\<close>.
\<close>

record scene_vars =
  objects :: "Object list"
  focusPoints :: "FocusPoint list"
  focusProbs :: "real list"

text \<open>
  \<^verbatim>\<open>numLights := rand.Intn(5) + 1\<close>, where \<open>k\<close> is the draw of \<^verbatim>\<open>rand.Intn(5)\<close>, one of
  \<open>0, ..., 4\<close>.
\<close>

definition numLights :: "nat \<Rightarrow> nat" where
  "numLights k = k + 1"

text \<open>
  The loop \<^verbatim>\<open>for i := 0; i < numLights; i++\<close> of \<^verbatim>\<open>RandomScene\<close>. The lights are
  random: \<open>light i\<close> is the shape that the call of \<^verbatim>\<open>CreateLight\<close> in round \<open>i\<close> returns.
\<close>

function lightLoop :: "(nat \<Rightarrow> Collider) \<Rightarrow> nat \<Rightarrow> nat \<Rightarrow> scene_vars \<Rightarrow> scene_vars" where
  "lightLoop light n i v =
     (if i < n then
        (let mn = Collider_Min (light i); mx = Collider_Max (light i)
         in lightLoop light n (Suc i)
              (v\<lparr>objects := objects v @ [LightObject (light i)],
                 focusPoints := focusPoints v @ [\<lparr>Center = Mid mn mx, Radius = Dist mn mx / 2\<rparr>],
                 focusProbs := focusProbs v @ [(3 / 10) / real n]\<rparr>))
      else v)"
  by pat_completeness auto
termination
  by (relation "measure (\<lambda>(light, n, i, v). n - i)") auto

section \<open>The exposure normaliser\<close>

text \<open>
  Modelled from the spec: \<^verbatim>\<open>render3d.Image\<close> (external) holds the pixels in the slice
  \<^verbatim>\<open>Data\<close>, the only field the normaliser reads; a pixel is a colour with three real
  channels, a \<^verbatim>\<open>Coord3D\<close>, and \<^verbatim>\<open>Sum\<close> adds the three.
\<close>

type_synonym Image = "Coord3D list"

definition Sum :: "Coord3D \<Rightarrow> real" where
  "Sum c = X c + Y c + Z c"

text \<open>
  \<^verbatim>\<open>quantileBrightness\<close> fills \<open>bs\<close> with the pixel averages, sorts it ascending and
  reads index \<^verbatim>\<open>int(float64(len(bs))*0.8)\<close>; the conversion truncates, and the read
  panics when the index is not below the length.
\<close>

definition quantileBrightness :: "Image \<Rightarrow> panic + real" where
  "quantileBrightness img =
     (let bs = sort (map (\<lambda>c. Sum c / 3) img);
          i = nat \<lfloor>real (length bs) * (8 / 10)\<rfloor>
      in if i < length bs then Inr (bs ! i) else Inl IndexOutOfRange)"

text \<open>
  \<^verbatim>\<open>BrightnessScale\<close>; \<open>g\<close> is the draw of \<^verbatim>\<open>rand.NormFloat64()\<close>. All values are
  finite and the divisor is at least \<open>1e-5\<close>; on finite values \<^verbatim>\<open>math.Min\<close> and
  \<^verbatim>\<open>math.Max\<close> are \<open>min\<close> and \<open>max\<close>.
\<close>

definition BrightnessScale :: "Image \<Rightarrow> real \<Rightarrow> panic + real" where
  "BrightnessScale img g =
     (let target = min (9 / 10) (max (1 / 10) (g * (1 / 10) + 3 / 10))
      in case quantileBrightness img of
           Inl e \<Rightarrow> Inl e
         | Inr q \<Rightarrow> (let median = max (1 / 100000) q in Inr (max 1 (target / median))))"

section \<open>Properties of the placement\<close>




lemma float64_div_nonzero: "b \<noteq> 0 \<Longrightarrow> float64_div a b = Fin (a / b)"
  by (simp add: float64_div_def)

lemma float64_div_zero_pos: "0 < a \<Longrightarrow> float64_div a 0 = PosInf"
  by (simp add: float64_div_def)

lemma math_Min_Fin: "math_Min (Fin a) (Fin b) = Fin (min a b)"
  by (simp add: min_def)

subsection \<open>The scale of a placement\<close>

text \<open>
  C6. For a mesh whose bounding box has positive extent on every axis and a target box
  with positive extent on every axis, \<open>maxScale\<close> is the minimum over the three axes of
  the target extent divided by the mesh extent, and the sampled \<open>scale\<close> lies between
  \<open>0.1 * maxScale\<close> and \<open>1.0 * maxScale\<close>, for every draw \<open>r0\<close> in \<open>[0, 1)\<close>. For a
  mesh with bounding box \<open>[0,0,0]\<close>-\<open>[2,2,2]\<close> and the target box \<open>[0,0,0]\<close>-\<open>[1,4,1]\<close>,
  \<open>maxScale\<close> is \<open>0.5\<close> and the scale lies in \<open>[0.05, 0.5]\<close>.
\<close>

theorem placeInBounds_scale:
  assumes r0: "0 \<le> r0" "r0 < 1"
    and mesh: "X (Mesh_Min m) < X (Mesh_Max m)" "Y (Mesh_Min m) < Y (Mesh_Max m)"
      "Z (Mesh_Min m) < Z (Mesh_Max m)"
    and box: "X pmin < X pmax" "Y pmin < Y pmax" "Z pmin < Z pmax"
  shows "maxScale pmin pmax m =
      Fin (min ((X pmax - X pmin) / (X (Mesh_Max m) - X (Mesh_Min m)))
            (min ((Y pmax - Y pmin) / (Y (Mesh_Max m) - Y (Mesh_Min m)))
                 ((Z pmax - Z pmin) / (Z (Mesh_Max m) - Z (Mesh_Min m)))))
    \<and> (\<exists>ms s. maxScale pmin pmax m = Fin ms \<and> scale pmin pmax m r0 = Fin s
          \<and> 0 < ms \<and> (1 / 10) * ms \<le> s \<and> s \<le> 1 * ms)
    \<and> (Mesh_Min m = \<lparr>X = 0, Y = 0, Z = 0\<rparr> \<and> Mesh_Max m = \<lparr>X = 2, Y = 2, Z = 2\<rparr>
        \<and> pmin = \<lparr>X = 0, Y = 0, Z = 0\<rparr> \<and> pmax = \<lparr>X = 1, Y = 4, Z = 1\<rparr>
       \<longrightarrow> maxScale pmin pmax m = Fin (1 / 2)
           \<and> (\<exists>s. scale pmin pmax m r0 = Fin s \<and> 1 / 20 \<le> s \<and> s \<le> 1 / 2))"
proof -
  let ?qx = "(X pmax - X pmin) / (X (Mesh_Max m) - X (Mesh_Min m))"
  let ?qy = "(Y pmax - Y pmin) / (Y (Mesh_Max m) - Y (Mesh_Min m))"
  let ?qz = "(Z pmax - Z pmin) / (Z (Mesh_Max m) - Z (Mesh_Min m))"
  let ?ms = "min ?qx (min ?qy ?qz)"
  let ?c = "r0 * (9 / 10) + 1 / 10"
  have ms: "maxScale pmin pmax m = Fin ?ms"
    using mesh
    by (simp add: maxScale_def Sub_def float64_div_nonzero Let_def math_Min_Fin
        del: math_Min.simps)
  have pos: "0 < ?ms"
    using mesh box by simp
  have sc: "scale pmin pmax m r0 = Fin (?c * ?ms)"
    by (simp add: scale_def ms)
  have c: "1 / 10 \<le> ?c" "?c \<le> 1"
    using r0 by simp_all
  have lo: "(1 / 10) * ?ms \<le> ?c * ?ms"
    using c(1) pos by (intro mult_right_mono) simp_all
  have hi: "?c * ?ms \<le> 1 * ?ms"
    using c(2) pos by (intro mult_right_mono) simp_all
  have part: "maxScale pmin pmax m = Fin (1 / 2)
      \<and> (\<exists>s. scale pmin pmax m r0 = Fin s \<and> 1 / 20 \<le> s \<and> s \<le> 1 / 2)"
    if "Mesh_Min m = \<lparr>X = 0, Y = 0, Z = 0\<rparr>" "Mesh_Max m = \<lparr>X = 2, Y = 2, Z = 2\<rparr>"
      "pmin = \<lparr>X = 0, Y = 0, Z = 0\<rparr>" "pmax = \<lparr>X = 1, Y = 4, Z = 1\<rparr>"
  proof -
    have v: "?ms = 1 / 2"
      using that by simp
    have s1: "scale pmin pmax m r0 = Fin (?c * (1 / 2))"
      using sc by (simp only: v)
    have s2: "1 / 20 \<le> ?c * (1 / 2)" and s3: "?c * (1 / 2) \<le> 1 / 2"
      using c by simp_all
    have s4: "maxScale pmin pmax m = Fin (1 / 2)"
      using ms by (simp only: v)
    from s1 s2 s3 s4 show ?thesis
      by blast
  qed
  from ms sc pos lo hi part show ?thesis
    by blast
qed


text \<open>
  The hypotheses of C6 hold for a one-triangle mesh with bounding box
  \<open>[0,0,0]\<close>-\<open>[2,2,2]\<close>, the target box \<open>[0,0,0]\<close>-\<open>[1,4,1]\<close> and the draw \<open>1/2\<close>.
\<close>

theorem placeInBounds_scale_witness:
  "(0::real) \<le> 1 / 2 \<and> (1 / 2 :: real) < 1
   \<and> X (Mesh_Min [(\<lparr>X = 0, Y = 0, Z = 0\<rparr>, \<lparr>X = 2, Y = 2, Z = 0\<rparr>, \<lparr>X = 0, Y = 2, Z = 2\<rparr>)])
       < X (Mesh_Max [(\<lparr>X = 0, Y = 0, Z = 0\<rparr>, \<lparr>X = 2, Y = 2, Z = 0\<rparr>, \<lparr>X = 0, Y = 2, Z = 2\<rparr>)])
   \<and> maxScale \<lparr>X = 0, Y = 0, Z = 0\<rparr> \<lparr>X = 1, Y = 4, Z = 1\<rparr>
        [(\<lparr>X = 0, Y = 0, Z = 0\<rparr>, \<lparr>X = 2, Y = 2, Z = 0\<rparr>, \<lparr>X = 0, Y = 2, Z = 2\<rparr>)] = Fin (1 / 2)
   \<and> (\<exists>s. scale \<lparr>X = 0, Y = 0, Z = 0\<rparr> \<lparr>X = 1, Y = 4, Z = 1\<rparr>
        [(\<lparr>X = 0, Y = 0, Z = 0\<rparr>, \<lparr>X = 2, Y = 2, Z = 0\<rparr>, \<lparr>X = 0, Y = 2, Z = 2\<rparr>)] (1 / 2) = Fin s
        \<and> 1 / 20 \<le> s \<and> s \<le> 1 / 2)"
proof -
  let ?m = "[(\<lparr>X = 0, Y = 0, Z = 0\<rparr>, \<lparr>X = 2, Y = 2, Z = 0\<rparr>, \<lparr>X = 0, Y = 2, Z = 2\<rparr>)]"
  have mn: "Mesh_Min ?m = \<lparr>X = 0, Y = 0, Z = 0\<rparr>"
    by (simp add: Mesh_Min_def Mesh_coords_def Triangle_coords_def Coord3D_Min_def)
  have mx: "Mesh_Max ?m = \<lparr>X = 2, Y = 2, Z = 2\<rparr>"
    by (simp add: Mesh_Max_def Mesh_coords_def Triangle_coords_def Coord3D_Max_def)
  show ?thesis
    using placeInBounds_scale [of "1 / 2" ?m "\<lparr>X = 0, Y = 0, Z = 0\<rparr>" "\<lparr>X = 1, Y = 4, Z = 1\<rparr>"]
    by (simp add: mn mx)
qed

subsection \<open>Degenerate meshes\<close>





lemma Mesh_Min_single:
  "Mesh_Min [(p1, p2, p3)] = Coord3D_Min p3 (Coord3D_Min p2 p1)"
  by (simp add: Mesh_Min_def Mesh_coords_def Triangle_coords_def)

lemma Mesh_Max_single:
  "Mesh_Max [(p1, p2, p3)] = Coord3D_Max p3 (Coord3D_Max p2 p1)"
  by (simp add: Mesh_Max_def Mesh_coords_def Triangle_coords_def)



subsection \<open>The placement box of the room\<close>

text \<open>
  C2 (as amended). For every room layout, \<open>PlaceMesh\<close> places the mesh into the box from
  \<open>(-Width/2, 0, 0)\<close> to \<open>(Width/2, Depth/2, 1)\<close>: the half of the floor on the far side
  of the room's centre, seen from the camera, at full width and full height. The
  \<open>placeMin\<close> argument passed to \<open>placeInBounds\<close> is \<open>(-Width/2, 0, 0)\<close>, the target
  extents are \<open>(Width, Depth/2, 1)\<close>, and these are the extents that the scale
  computation divides.
\<close>

theorem PlaceMesh_bounds:
  "placeMin r = \<lparr>X = - Width r / 2, Y = 0, Z = 0\<rparr>
   \<and> placeMax r = \<lparr>X = Width r / 2, Y = Depth r / 2, Z = 1\<rparr>
   \<and> PlaceMesh r m r0 r1 r2 r3 =
       placeInBounds \<lparr>X = - Width r / 2, Y = 0, Z = 0\<rparr>
         \<lparr>X = Width r / 2, Y = Depth r / 2, Z = 1\<rparr> m r0 r1 r2 r3
   \<and> Sub (placeMax r) (placeMin r) = \<lparr>X = Width r, Y = Depth r / 2, Z = 1\<rparr>
   \<and> maxScale (placeMin r) (placeMax r) m =
       math_Min (float64_div (Width r) (X (Mesh_Max m) - X (Mesh_Min m)))
         (math_Min (float64_div (Depth r / 2) (Y (Mesh_Max m) - Y (Mesh_Min m)))
            (float64_div 1 (Z (Mesh_Max m) - Z (Mesh_Min m))))"
proof -
  have box: "Sub (placeMax r) (placeMin r) = \<lparr>X = Width r, Y = Depth r / 2, Z = 1\<rparr>"
    by (simp add: placeMin_def placeMax_def Sub_def)
  have ext: "maxScale (placeMin r) (placeMax r) m =
       math_Min (float64_div (Width r) (X (Mesh_Max m) - X (Mesh_Min m)))
         (math_Min (float64_div (Depth r / 2) (Y (Mesh_Max m) - Y (Mesh_Min m)))
            (float64_div 1 (Z (Mesh_Max m) - Z (Mesh_Min m))))"
    unfolding maxScale_def Let_def box by (simp add: Sub_def)
  show ?thesis
    using box ext by (simp add: PlaceMesh_def placeMin_def placeMax_def)
qed

text \<open>
  The claim C2 as stated fails: for width 1 and depth 10 the \<open>placeMin\<close> argument is not
  \<open>(-Width/2, -Depth/2, 0)\<close>.
\<close>

theorem PlaceMesh_placeMin_counterexample:
  "0 < Width \<lparr>Width = 1, Depth = 10\<rparr> \<and> 0 < Depth \<lparr>Width = 1, Depth = 10\<rparr>
   \<and> placeMin \<lparr>Width = 1, Depth = 10\<rparr>
       \<noteq> \<lparr>X = - Width \<lparr>Width = 1, Depth = 10\<rparr> / 2,
           Y = - Depth \<lparr>Width = 1, Depth = 10\<rparr> / 2, Z = 0\<rparr>"
  by (simp add: placeMin_def)

subsection \<open>The translation of a placement\<close>

text \<open>
  C1. The claim is that the translation lies in the interval from
  \<open>placeMin - newMin\<close> to \<open>placeMax - newMax\<close> and that the mesh returned lies within the
  target box. The code multiplies the random vector by the width of that interval and
  does not add its lower end \<open>translateMin\<close>. For the room of width 1 and depth 10, a
  triangle with bounding box \<open>[0,0,0]\<close>-\<open>[1,1,1]\<close> and all four draws equal to \<open>1/2\<close>, the
  mesh returned reaches \<open>x = 31/40\<close>, beyond the box's \<open>x = 1/2\<close>, and the translation's
  x component \<open>9/40\<close> is above the upper end \<open>-1/20\<close> of the interval.
\<close>

theorem PlaceMesh_leaves_target:
  "PlaceMesh \<lparr>Width = 1, Depth = 10\<rparr>
      [(\<lparr>X = 0, Y = 0, Z = 0\<rparr>, \<lparr>X = 1, Y = 1, Z = 0\<rparr>, \<lparr>X = 0, Y = 1, Z = 1\<rparr>)]
      (1 / 2) (1 / 2) (1 / 2) (1 / 2)
     = Placed [(\<lparr>X = 9 / 40, Y = 89 / 40, Z = 9 / 40\<rparr>, \<lparr>X = 31 / 40, Y = 111 / 40, Z = 9 / 40\<rparr>,
                \<lparr>X = 9 / 40, Y = 111 / 40, Z = 31 / 40\<rparr>)]
   \<and> X (placeMax \<lparr>Width = 1, Depth = 10\<rparr>)
       < X (Mesh_Max [(\<lparr>X = 9 / 40, Y = 89 / 40, Z = 9 / 40\<rparr>,
                       \<lparr>X = 31 / 40, Y = 111 / 40, Z = 9 / 40\<rparr>,
                       \<lparr>X = 9 / 40, Y = 111 / 40, Z = 31 / 40\<rparr>)])
   \<and> X (Sub (placeMax \<lparr>Width = 1, Depth = 10\<rparr>)
           (Mesh_Max (Mesh_Scale
              [(\<lparr>X = 0, Y = 0, Z = 0\<rparr>, \<lparr>X = 1, Y = 1, Z = 0\<rparr>, \<lparr>X = 0, Y = 1, Z = 1\<rparr>)] (11 / 20))))
       < X (translate (placeMin \<lparr>Width = 1, Depth = 10\<rparr>) (placeMax \<lparr>Width = 1, Depth = 10\<rparr>)
              [(\<lparr>X = 0, Y = 0, Z = 0\<rparr>, \<lparr>X = 1, Y = 1, Z = 0\<rparr>, \<lparr>X = 0, Y = 1, Z = 1\<rparr>)]
              (11 / 20) (1 / 2) (1 / 2) (1 / 2))"
proof -
  let ?m = "[(\<lparr>X = 0, Y = 0, Z = 0\<rparr>, \<lparr>X = 1, Y = 1, Z = 0\<rparr>, \<lparr>X = 0, Y = 1, Z = 1\<rparr>)]"
  let ?l = "\<lparr>Width = 1, Depth = 10\<rparr>"
  have mn: "Mesh_Min ?m = \<lparr>X = 0, Y = 0, Z = 0\<rparr>"
    by (simp add: Mesh_Min_single Coord3D_Min_def)
  have mx: "Mesh_Max ?m = \<lparr>X = 1, Y = 1, Z = 1\<rparr>"
    by (simp add: Mesh_Max_single Coord3D_Max_def)
  have ms: "maxScale (placeMin ?l) (placeMax ?l) ?m = Fin 1"
    by (simp add: maxScale_def mn mx Sub_def float64_div_def placeMin_def placeMax_def)
  have sc: "scale (placeMin ?l) (placeMax ?l) ?m (1 / 2) = Fin (11 / 20)"
    by (simp add: scale_def ms)
  have sm: "Mesh_Scale ?m (11 / 20) =
      [(\<lparr>X = 0, Y = 0, Z = 0\<rparr>, \<lparr>X = 11 / 20, Y = 11 / 20, Z = 0\<rparr>,
        \<lparr>X = 0, Y = 11 / 20, Z = 11 / 20\<rparr>)]"
    by (simp add: Mesh_Scale_def MapCoords_def Scale_def)
  have tr: "translate (placeMin ?l) (placeMax ?l) ?m (11 / 20) (1 / 2) (1 / 2) (1 / 2)
      = \<lparr>X = 9 / 40, Y = 89 / 40, Z = 9 / 40\<rparr>"
    by (simp add: translate_def sm Mesh_Min_single Mesh_Max_single Coord3D_Min_def
        Coord3D_Max_def Sub_def Mul_def uniformRandom_def placeMin_def placeMax_def)
  have res: "PlaceMesh ?l ?m (1 / 2) (1 / 2) (1 / 2) (1 / 2)
     = Placed [(\<lparr>X = 9 / 40, Y = 89 / 40, Z = 9 / 40\<rparr>, \<lparr>X = 31 / 40, Y = 111 / 40, Z = 9 / 40\<rparr>,
                \<lparr>X = 9 / 40, Y = 111 / 40, Z = 31 / 40\<rparr>)]"
    by (simp add: PlaceMesh_def placeInBounds_def sc tr sm MapCoords_def Add_def)
  have out: "X (placeMax ?l)
       < X (Mesh_Max [(\<lparr>X = 9 / 40, Y = 89 / 40, Z = 9 / 40\<rparr>,
                       \<lparr>X = 31 / 40, Y = 111 / 40, Z = 9 / 40\<rparr>,
                       \<lparr>X = 9 / 40, Y = 111 / 40, Z = 31 / 40\<rparr>)])"
    by (simp add: Mesh_Max_single Coord3D_Max_def placeMax_def)
  have far: "X (Sub (placeMax ?l) (Mesh_Max (Mesh_Scale ?m (11 / 20))))
       < X (translate (placeMin ?l) (placeMax ?l) ?m (11 / 20) (1 / 2) (1 / 2) (1 / 2))"
    unfolding tr sm by (simp add: Mesh_Max_single Coord3D_Max_def Sub_def placeMax_def)
  from res out far show ?thesis
    by blast
qed

section \<open>Properties of the room layout\<close>

text \<open>
  C7 (as amended). For every room layout, \<open>CameraInfo\<close> returns the position
  \<open>(0, -Depth/2 + 1e-5, 0.5)\<close> and the target \<open>(0, Depth/2, 0.5)\<close>; for width 1 and
  depth 10 these are \<open>(0, -5 + 1e-5, 0.5)\<close> and \<open>(0, 5, 0.5)\<close>; position and target
  coincide exactly when the depth is \<open>1e-5\<close>, and differ for every other depth.
\<close>

theorem CameraInfo_position_target:
  "CameraInfo r =
     (\<lparr>X = 0, Y = - Depth r / 2 + 1 / 100000, Z = 1 / 2\<rparr>, \<lparr>X = 0, Y = Depth r / 2, Z = 1 / 2\<rparr>)
   \<and> CameraInfo \<lparr>Width = 1, Depth = 10\<rparr> =
     (\<lparr>X = 0, Y = - 5 + 1 / 100000, Z = 1 / 2\<rparr>, \<lparr>X = 0, Y = 5, Z = 1 / 2\<rparr>)
   \<and> ((fst (CameraInfo r) = snd (CameraInfo r)) = (Depth r = 1 / 100000))"
proof -
  have "(- Depth r / 2 + 1 / 100000 = Depth r / 2) = (Depth r = 1 / 100000)"
    by (auto simp: field_simps)
  then show ?thesis
    by (simp add: CameraInfo_def)
qed

text \<open>
  The claim C7 as stated fails: a layout of positive width and depth \<open>1e-5\<close> has
  position equal to target.
\<close>

theorem CameraInfo_coincide_counterexample:
  "0 < Width \<lparr>Width = 1, Depth = 1 / 100000\<rparr>
   \<and> 0 < Depth \<lparr>Width = 1, Depth = 1 / 100000\<rparr>
   \<and> fst (CameraInfo \<lparr>Width = 1, Depth = 1 / 100000\<rparr>)
       = snd (CameraInfo \<lparr>Width = 1, Depth = 1 / 100000\<rparr>)"
  by (simp add: CameraInfo_def)

section \<open>Properties of the backdrop\<close>

lemma coplanarNeighbor_mem:
  "coplanarNeighbor m t n \<Longrightarrow> n \<in> set m \<and> n \<noteq> t"
  by (simp add: coplanarNeighbor_def Neighbors_def)

lemma coplanarNeighbor_mono:
  "coplanarNeighbor m1 t n \<Longrightarrow> set m1 \<subseteq> set m \<Longrightarrow> coplanarNeighbor m t n"
  by (auto simp: coplanarNeighbor_def Neighbors_def)

lemma coplanarNeighbor_sub:
  "coplanarNeighbor m t n \<Longrightarrow> n \<in> set m1 \<Longrightarrow> coplanarNeighbor m1 t n"
  by (auto simp: coplanarNeighbor_def Neighbors_def)

lemma set_Remove: "set (Remove m t) = set m - {t}"
  by (auto simp: Remove_def)

lemma distinct_Remove: "distinct m \<Longrightarrow> distinct (Remove m t)"
  by (simp add: Remove_def)

lemma length_Remove:
  "distinct m \<Longrightarrow> t \<in> set m \<Longrightarrow> Suc (length (Remove m t)) = length m"
proof -
  assume d: "distinct m" and t: "t \<in> set m"
  have "length (Remove m t) = card (set m - {t})"
    using distinct_card [OF distinct_Remove [OF d, of t]] by (simp add: set_Remove)
  also have "\<dots> = card (set m) - 1"
    using t by simp
  also have "\<dots> = length m - 1"
    using d by (simp add: distinct_card)
  finally show ?thesis
    using t by (cases m) auto
qed

lemma paired_Remove:
  assumes p: "paired m" and t: "t \<in> set m" and n: "coplanarNeighbor m t n"
  shows "paired (Remove (Remove m n) t)"
proof -
  let ?m = "Remove (Remove m n) t"
  have sub: "set ?m = set m - {t, n}"
    by (auto simp: set_Remove)
  have d: "distinct m"
    and uniq: "\<And>s. s \<in> set m \<Longrightarrow> \<exists>!k. coplanarNeighbor m s k"
    and sym: "\<And>s k. s \<in> set m \<Longrightarrow> coplanarNeighbor m s k \<Longrightarrow> coplanarNeighbor m k s"
    using p unfolding paired_def by blast+
  have nm: "n \<in> set m" "n \<noteq> t"
    using coplanarNeighbor_mem [OF n] by simp_all
  have nt: "coplanarNeighbor m n t"
    using sym [OF t n] .
  have stay: "k \<in> set ?m" if s: "s \<in> set ?m" and k: "coplanarNeighbor m s k" for s k
  proof -
    have sm: "s \<in> set m" "s \<noteq> t" "s \<noteq> n"
      using s sub by auto
    have km: "k \<in> set m"
      using coplanarNeighbor_mem [OF k] by simp
    have "k \<noteq> t"
    proof
      assume "k = t"
      with k have "coplanarNeighbor m s t" by simp
      then have "coplanarNeighbor m t s" using sym [OF sm(1)] by simp
      with n uniq [OF t] have "s = n" by blast
      with sm(3) show False by simp
    qed
    moreover have "k \<noteq> n"
    proof
      assume "k = n"
      with k have "coplanarNeighbor m s n" by simp
      then have "coplanarNeighbor m n s" using sym [OF sm(1)] by simp
      with nt uniq [OF nm(1)] have "s = t" by blast
      with sm(2) show False by simp
    qed
    ultimately show ?thesis
      using km sub by simp
  qed
  have d1: "distinct ?m"
    using d by (simp add: distinct_Remove)
  have u1: "\<exists>!k. coplanarNeighbor ?m s k" if s: "s \<in> set ?m" for s
  proof -
    have sm: "s \<in> set m"
      using s sub by auto
    from uniq [OF sm] obtain k where k: "coplanarNeighbor m s k"
      and only: "\<And>k1. coplanarNeighbor m s k1 \<Longrightarrow> k1 = k"
      by blast
    have "coplanarNeighbor ?m s k"
      using coplanarNeighbor_sub [OF k stay [OF s k]] .
    moreover have "k1 = k" if "coplanarNeighbor ?m s k1" for k1
    proof -
      have "set ?m \<subseteq> set m" using sub by auto
      from coplanarNeighbor_mono [OF that this] show ?thesis by (rule only)
    qed
    ultimately show ?thesis
      by blast
  qed
  have s1: "coplanarNeighbor ?m k s" if s: "s \<in> set ?m" and k: "coplanarNeighbor ?m s k" for s k
  proof -
    have le: "set ?m \<subseteq> set m" using sub by auto
    have sm: "s \<in> set m" using s sub by auto
    have "coplanarNeighbor m s k"
      using coplanarNeighbor_mono [OF k le] .
    then have "coplanarNeighbor m k s"
      by (rule sym [OF sm])
    then show ?thesis
      using s by (rule coplanarNeighbor_sub)
  qed
  show ?thesis
    unfolding paired_def using d1 u1 s1 by blast
qed

lemma find_Some_mem: "find P xs = Some x \<Longrightarrow> x \<in> set xs \<and> P x"
  by (induction xs) (simp_all split: if_splits)

lemma find_mem_Some: "x \<in> set xs \<Longrightarrow> P x \<Longrightarrow> \<exists>y. find P xs = Some y"
  by (induction xs) auto

lemma backdropVisit_paired:
  assumes p: "paired m" and t: "t \<in> set m"
    and nord: "\<And>t xs. set (nord t xs) = set xs"
  shows "\<exists>n. coplanarNeighbor m t n
    \<and> backdropVisit nord t (m, walls) = Inr (Remove (Remove m n) t, walls @ [[t, n]])"
proof -
  let ?P = "\<lambda>n. 99 / 100 < Dot (Normal n) (Normal t)"
  from p t obtain k where k: "coplanarNeighbor m t k"
    unfolding paired_def by blast
  then have "k \<in> set (nord t (Neighbors m t))" and "?P k"
    by (simp_all add: coplanarNeighbor_def nord)
  then have "\<exists>n. find ?P (nord t (Neighbors m t)) = Some n"
    by (rule find_mem_Some)
  then obtain n where f: "find ?P (nord t (Neighbors m t)) = Some n" ..
  then have "n \<in> set (nord t (Neighbors m t)) \<and> ?P n"
    by (rule find_Some_mem)
  then have "coplanarNeighbor m t n"
    by (simp add: coplanarNeighbor_def nord)
  moreover have "backdropVisit nord t (m, walls) = Inr (Remove (Remove m n) t, walls @ [[t, n]])"
    by (simp only: backdropVisit_def f NewMeshTriangles_def prod.case option.case)
  ultimately show ?thesis
    by blast
qed

lemma Iterate_paired:
  assumes nord: "\<And>t xs. set (nord t xs) = set xs"
  shows "paired m \<Longrightarrow> set m \<subseteq> set ts \<Longrightarrow>
    \<exists>ps. Iterate (backdropVisit nord) ts (m, walls) = Inr ([], walls @ ps)
      \<and> 2 * length ps = length m
      \<and> (\<forall>w \<in> set ps. \<exists>t n. w = [t, n] \<and> coplanarNeighbor m t n)
      \<and> set (concat ps) = set m"
proof (induction ts arbitrary: m walls)
  case Nil
  then have "m = []"
    by simp
  then show ?case
    by (intro exI [of _ "[]"]) simp
next
  case (Cons a ts)
  show ?case
  proof (cases "a \<in> set m")
    case False
    with Cons.prems have "set m \<subseteq> set ts"
      by auto
    from Cons.IH [OF Cons.prems(1) this, where walls = walls] False show ?thesis
      by simp
  next
    case True
    from backdropVisit_paired [OF Cons.prems(1) True nord, where walls = walls]
    obtain n where nv: "coplanarNeighbor m a n
      \<and> backdropVisit nord a (m, walls) = Inr (Remove (Remove m n) a, walls @ [[a, n]])" ..
    then have n: "coplanarNeighbor m a n"
      and visit: "backdropVisit nord a (m, walls) = Inr (Remove (Remove m n) a, walls @ [[a, n]])"
      by simp_all
    let ?m = "Remove (Remove m n) a"
    have d: "distinct m"
      using Cons.prems(1) by (simp add: paired_def)
    have nm: "n \<in> set m" "n \<noteq> a"
      using coplanarNeighbor_mem [OF n] by simp_all
    have p1: "paired ?m"
      using paired_Remove [OF Cons.prems(1) True n] .
    have sub: "set ?m = set m - {a, n}"
      by (auto simp: set_Remove)
    then have sub1: "set ?m \<subseteq> set ts"
      using Cons.prems(2) by auto
    from Cons.IH [OF p1 sub1, where walls = "walls @ [[a, n]]"]
    obtain ps where ih: "Iterate (backdropVisit nord) ts (?m, walls @ [[a, n]])
          = Inr ([], (walls @ [[a, n]]) @ ps)
      \<and> 2 * length ps = length ?m
      \<and> (\<forall>w \<in> set ps. \<exists>t k. w = [t, k] \<and> coplanarNeighbor ?m t k)
      \<and> set (concat ps) = set ?m" ..
    have run: "Iterate (backdropVisit nord) ts (?m, walls @ [[a, n]])
          = Inr ([], (walls @ [[a, n]]) @ ps)"
      using ih by (elim conjE)
    have len: "2 * length ps = length ?m"
      using ih by (elim conjE)
    have each: "\<forall>w \<in> set ps. \<exists>t k. w = [t, k] \<and> coplanarNeighbor ?m t k"
      using ih by (elim conjE)
    have all: "set (concat ps) = set ?m"
      using ih by (elim conjE)
    have l1: "Suc (length (Remove m n)) = length m"
      using d nm(1) by (rule length_Remove)
    have "a \<in> set (Remove m n)"
      using True nm(2) by (simp add: set_Remove)
    then have l2: "Suc (length ?m) = length (Remove m n)"
      using distinct_Remove [OF d] by (intro length_Remove) simp_all
    have r: "Iterate (backdropVisit nord) (a # ts) (m, walls) = Inr ([], walls @ ([a, n] # ps))"
      using True run by (simp add: visit)
    have len1: "2 * length ([a, n] # ps) = length m"
      using len l1 l2 by simp
    have each1: "\<forall>w \<in> set ([a, n] # ps). \<exists>t k. w = [t, k] \<and> coplanarNeighbor m t k"
    proof
      fix w assume "w \<in> set ([a, n] # ps)"
      then consider "w = [a, n]" | "w \<in> set ps"
        by auto
      then show "\<exists>t k. w = [t, k] \<and> coplanarNeighbor m t k"
      proof cases
        case 1
        with n show ?thesis by blast
      next
        case 2
        with each have "\<exists>t k. w = [t, k] \<and> coplanarNeighbor ?m t k" ..
        then obtain t k where "w = [t, k]" "coplanarNeighbor ?m t k"
          by (elim exE conjE)
        moreover have "set ?m \<subseteq> set m"
          using sub by auto
        ultimately have "w = [t, k] \<and> coplanarNeighbor m t k"
          using coplanarNeighbor_mono [of ?m t k m] by simp
        then show ?thesis
          by (intro exI)
      qed
    qed
    have "set (concat ([a, n] # ps)) = {a, n} \<union> set ?m"
      using all by simp
    also have "\<dots> = set m"
      unfolding sub using True nm(1) by blast
    finally have all1: "set (concat ([a, n] # ps)) = set m" .
    show ?thesis
      by (intro exI [of _ "[a, n] # ps"] conjI r len1 each1 all1)
  qed
qed


text \<open>The box mesh: its triangles, their normals, and the pairing of its faces.\<close>

lemma box_normals:
  fixes x0 x1 y0 y1 z0 z1 :: real
  assumes "x0 < x1" "y0 < y1" "z0 < z1"
  shows
    "Normal (\<lparr>X = x0, Y = y0, Z = z0\<rparr>, \<lparr>X = x0, Y = y1, Z = z0\<rparr>, \<lparr>X = x1, Y = y1, Z = z0\<rparr>) = \<lparr>X = 0, Y = 0, Z = - 1\<rparr>"
    "Normal (\<lparr>X = x0, Y = y0, Z = z0\<rparr>, \<lparr>X = x1, Y = y1, Z = z0\<rparr>, \<lparr>X = x1, Y = y0, Z = z0\<rparr>) = \<lparr>X = 0, Y = 0, Z = - 1\<rparr>"
    "Normal (\<lparr>X = x0, Y = y0, Z = z1\<rparr>, \<lparr>X = x1, Y = y0, Z = z1\<rparr>, \<lparr>X = x1, Y = y1, Z = z1\<rparr>) = \<lparr>X = 0, Y = 0, Z = 1\<rparr>"
    "Normal (\<lparr>X = x0, Y = y0, Z = z1\<rparr>, \<lparr>X = x1, Y = y1, Z = z1\<rparr>, \<lparr>X = x0, Y = y1, Z = z1\<rparr>) = \<lparr>X = 0, Y = 0, Z = 1\<rparr>"
    "Normal (\<lparr>X = x0, Y = y0, Z = z0\<rparr>, \<lparr>X = x1, Y = y0, Z = z0\<rparr>, \<lparr>X = x1, Y = y0, Z = z1\<rparr>) = \<lparr>X = 0, Y = - 1, Z = 0\<rparr>"
    "Normal (\<lparr>X = x0, Y = y0, Z = z0\<rparr>, \<lparr>X = x1, Y = y0, Z = z1\<rparr>, \<lparr>X = x0, Y = y0, Z = z1\<rparr>) = \<lparr>X = 0, Y = - 1, Z = 0\<rparr>"
    "Normal (\<lparr>X = x0, Y = y1, Z = z0\<rparr>, \<lparr>X = x0, Y = y1, Z = z1\<rparr>, \<lparr>X = x1, Y = y1, Z = z1\<rparr>) = \<lparr>X = 0, Y = 1, Z = 0\<rparr>"
    "Normal (\<lparr>X = x0, Y = y1, Z = z0\<rparr>, \<lparr>X = x1, Y = y1, Z = z1\<rparr>, \<lparr>X = x1, Y = y1, Z = z0\<rparr>) = \<lparr>X = 0, Y = 1, Z = 0\<rparr>"
    "Normal (\<lparr>X = x0, Y = y0, Z = z0\<rparr>, \<lparr>X = x0, Y = y0, Z = z1\<rparr>, \<lparr>X = x0, Y = y1, Z = z1\<rparr>) = \<lparr>X = - 1, Y = 0, Z = 0\<rparr>"
    "Normal (\<lparr>X = x0, Y = y0, Z = z0\<rparr>, \<lparr>X = x0, Y = y1, Z = z1\<rparr>, \<lparr>X = x0, Y = y1, Z = z0\<rparr>) = \<lparr>X = - 1, Y = 0, Z = 0\<rparr>"
    "Normal (\<lparr>X = x1, Y = y0, Z = z0\<rparr>, \<lparr>X = x1, Y = y1, Z = z0\<rparr>, \<lparr>X = x1, Y = y1, Z = z1\<rparr>) = \<lparr>X = 1, Y = 0, Z = 0\<rparr>"
    "Normal (\<lparr>X = x1, Y = y0, Z = z0\<rparr>, \<lparr>X = x1, Y = y1, Z = z1\<rparr>, \<lparr>X = x1, Y = y0, Z = z1\<rparr>) = \<lparr>X = 1, Y = 0, Z = 0\<rparr>"
  using assms by (simp_all add: Normal_def Cross_def Sub_def Scale_def Dot_def Let_def)

lemma box_list:
  "NewMeshRect \<lparr>X = x0, Y = y0, Z = z0\<rparr> \<lparr>X = x1, Y = y1, Z = z1\<rparr> =
     [(\<lparr>X = x0, Y = y0, Z = z0\<rparr>, \<lparr>X = x0, Y = y1, Z = z0\<rparr>, \<lparr>X = x1, Y = y1, Z = z0\<rparr>),
      (\<lparr>X = x0, Y = y0, Z = z0\<rparr>, \<lparr>X = x1, Y = y1, Z = z0\<rparr>, \<lparr>X = x1, Y = y0, Z = z0\<rparr>),
      (\<lparr>X = x0, Y = y0, Z = z1\<rparr>, \<lparr>X = x1, Y = y0, Z = z1\<rparr>, \<lparr>X = x1, Y = y1, Z = z1\<rparr>),
      (\<lparr>X = x0, Y = y0, Z = z1\<rparr>, \<lparr>X = x1, Y = y1, Z = z1\<rparr>, \<lparr>X = x0, Y = y1, Z = z1\<rparr>),
      (\<lparr>X = x0, Y = y0, Z = z0\<rparr>, \<lparr>X = x1, Y = y0, Z = z0\<rparr>, \<lparr>X = x1, Y = y0, Z = z1\<rparr>),
      (\<lparr>X = x0, Y = y0, Z = z0\<rparr>, \<lparr>X = x1, Y = y0, Z = z1\<rparr>, \<lparr>X = x0, Y = y0, Z = z1\<rparr>),
      (\<lparr>X = x0, Y = y1, Z = z0\<rparr>, \<lparr>X = x0, Y = y1, Z = z1\<rparr>, \<lparr>X = x1, Y = y1, Z = z1\<rparr>),
      (\<lparr>X = x0, Y = y1, Z = z0\<rparr>, \<lparr>X = x1, Y = y1, Z = z1\<rparr>, \<lparr>X = x1, Y = y1, Z = z0\<rparr>),
      (\<lparr>X = x0, Y = y0, Z = z0\<rparr>, \<lparr>X = x0, Y = y0, Z = z1\<rparr>, \<lparr>X = x0, Y = y1, Z = z1\<rparr>),
      (\<lparr>X = x0, Y = y0, Z = z0\<rparr>, \<lparr>X = x0, Y = y1, Z = z1\<rparr>, \<lparr>X = x0, Y = y1, Z = z0\<rparr>),
      (\<lparr>X = x1, Y = y0, Z = z0\<rparr>, \<lparr>X = x1, Y = y1, Z = z0\<rparr>, \<lparr>X = x1, Y = y1, Z = z1\<rparr>),
      (\<lparr>X = x1, Y = y0, Z = z0\<rparr>, \<lparr>X = x1, Y = y1, Z = z1\<rparr>, \<lparr>X = x1, Y = y0, Z = z1\<rparr>)]"
  by (simp add: NewMeshRect_def quad_def)


lemma box_distinct:
  fixes x0 x1 y0 y1 z0 z1 :: real
  assumes "x0 < x1" "y0 < y1" "z0 < z1"
  shows "distinct (NewMeshRect \<lparr>X = x0, Y = y0, Z = z0\<rparr> \<lparr>X = x1, Y = y1, Z = z1\<rparr>)"
  using assms by (simp add: box_list)

lemma coplanarNeighbor_iff:
  "coplanarNeighbor m t n =
     (n \<in> set m \<and> n \<noteq> t
      \<and> 1 < length (filter (\<lambda>p. p \<in> set (Triangle_coords n)) (Triangle_coords t))
      \<and> 99 / 100 < Dot (Normal n) (Normal t))"
  by (simp add: coplanarNeighbor_def Neighbors_def)

lemma box_one_neighbor:
  fixes x0 x1 y0 y1 z0 z1 :: real
  assumes "x0 < x1" "y0 < y1" "z0 < z1"
  shows "\<forall>t \<in> set (NewMeshRect \<lparr>X = x0, Y = y0, Z = z0\<rparr> \<lparr>X = x1, Y = y1, Z = z1\<rparr>).
      length (filter (\<lambda>n. n \<noteq> t
          \<and> 1 < length (filter (\<lambda>p. p \<in> set (Triangle_coords n)) (Triangle_coords t))
          \<and> 99 / 100 < Dot (Normal n) (Normal t))
        (NewMeshRect \<lparr>X = x0, Y = y0, Z = z0\<rparr> \<lparr>X = x1, Y = y1, Z = z1\<rparr>)) = 1"
proof -
  have ne: "x0 \<noteq> x1" "x1 \<noteq> x0" "y0 \<noteq> y1" "y1 \<noteq> y0" "z0 \<noteq> z1" "z1 \<noteq> z0"
    using assms by simp_all
  show ?thesis
    unfolding box_list
    by (simp add: Triangle_coords_def box_normals [OF assms] Dot_def ne)
qed

lemma box_symmetric:
  fixes x0 x1 y0 y1 z0 z1 :: real
  assumes "x0 < x1" "y0 < y1" "z0 < z1"
  shows "\<forall>t \<in> set (NewMeshRect \<lparr>X = x0, Y = y0, Z = z0\<rparr> \<lparr>X = x1, Y = y1, Z = z1\<rparr>).
      \<forall>n \<in> set (NewMeshRect \<lparr>X = x0, Y = y0, Z = z0\<rparr> \<lparr>X = x1, Y = y1, Z = z1\<rparr>).
        (n \<noteq> t
          \<and> 1 < length (filter (\<lambda>p. p \<in> set (Triangle_coords n)) (Triangle_coords t))
          \<and> 99 / 100 < Dot (Normal n) (Normal t))
        \<longrightarrow> (t \<noteq> n
          \<and> 1 < length (filter (\<lambda>p. p \<in> set (Triangle_coords t)) (Triangle_coords n))
          \<and> 99 / 100 < Dot (Normal t) (Normal n))"
proof -
  have ne: "x0 \<noteq> x1" "x1 \<noteq> x0" "y0 \<noteq> y1" "y1 \<noteq> y0" "z0 \<noteq> z1" "z1 \<noteq> z0"
    using assms by simp_all
  show ?thesis
    unfolding box_list
    by (simp add: Triangle_coords_def box_normals [OF assms] Dot_def ne)
qed


lemma box_length:
  "length (NewMeshRect \<lparr>X = x0, Y = y0, Z = z0\<rparr> \<lparr>X = x1, Y = y1, Z = z1\<rparr>) = 12"
  by (simp add: box_list)

lemma box_corners:
  "set (Mesh_coords (NewMeshRect \<lparr>X = x0, Y = y0, Z = z0\<rparr> \<lparr>X = x1, Y = y1, Z = z1\<rparr>)) =
     {\<lparr>X = x0, Y = y0, Z = z0\<rparr>, \<lparr>X = x1, Y = y0, Z = z0\<rparr>,
      \<lparr>X = x0, Y = y1, Z = z0\<rparr>, \<lparr>X = x1, Y = y1, Z = z0\<rparr>,
      \<lparr>X = x0, Y = y0, Z = z1\<rparr>, \<lparr>X = x1, Y = y0, Z = z1\<rparr>,
      \<lparr>X = x0, Y = y1, Z = z1\<rparr>, \<lparr>X = x1, Y = y1, Z = z1\<rparr>}"
  unfolding box_list Mesh_coords_def Triangle_coords_def by (simp add: insert_commute)

lemma box_paired:
  fixes x0 x1 y0 y1 z0 z1 :: real
  assumes "x0 < x1" "y0 < y1" "z0 < z1"
  shows "paired (NewMeshRect \<lparr>X = x0, Y = y0, Z = z0\<rparr> \<lparr>X = x1, Y = y1, Z = z1\<rparr>)"
proof -
  let ?box = "NewMeshRect \<lparr>X = x0, Y = y0, Z = z0\<rparr> \<lparr>X = x1, Y = y1, Z = z1\<rparr>"
  let ?Q = "\<lambda>t n. n \<noteq> t
          \<and> 1 < length (filter (\<lambda>p. p \<in> set (Triangle_coords n)) (Triangle_coords t))
          \<and> 99 / 100 < Dot (Normal n) (Normal t)"
  have cn: "coplanarNeighbor ?box t n = (n \<in> set ?box \<and> ?Q t n)" for t n
    by (rule coplanarNeighbor_iff)
  have uniq: "\<exists>!n. coplanarNeighbor ?box t n" if t: "t \<in> set ?box" for t
  proof -
    have "length (filter (?Q t) ?box) = 1"
      using box_one_neighbor [OF assms] t by (rule bspec)
    then obtain p where p: "filter (?Q t) ?box = [p]"
      by (cases "filter (?Q t) ?box") simp_all
    have "coplanarNeighbor ?box t n = (n = p)" for n
    proof -
      have "coplanarNeighbor ?box t n = (n \<in> set (filter (?Q t) ?box))"
        unfolding cn by simp
      also have "\<dots> = (n = p)"
        unfolding p by simp
      finally show ?thesis .
    qed
    then show ?thesis
      by simp
  qed
  have sym: "coplanarNeighbor ?box n t" if t: "t \<in> set ?box" and n: "coplanarNeighbor ?box t n" for t n
  proof -
    from n have both: "n \<in> set ?box \<and> ?Q t n"
      unfolding cn .
    then have nb: "n \<in> set ?box"
      by (rule conjunct1)
    from both have q: "?Q t n"
      by (rule conjunct2)
    have "\<forall>n \<in> set ?box. ?Q t n \<longrightarrow> ?Q n t"
      using box_symmetric [OF assms] t by (rule bspec)
    then have "?Q t n \<longrightarrow> ?Q n t"
      using nb by (rule bspec)
    then have "?Q n t"
      using q by (rule mp)
    with t show ?thesis
      unfolding cn by (rule conjI)
  qed
  show ?thesis
    unfolding paired_def using box_distinct [OF assms] uniq sym by blast
qed

text \<open>
  C4. For every room layout of positive width and depth, whatever the order in which the
  triangles and the neighbours are visited, \<open>CreateBackdrop\<close> returns exactly 6 panels;
  each panel holds exactly 2 triangles, a triangle \<open>t\<close> and a neighbour \<open>n\<close> of \<open>t\<close> in
  the box mesh whose normal has a dot product above \<open>0.99\<close> with the normal of \<open>t\<close>; and
  the vertices of all panels together are the vertices of the box mesh, which are the 8
  corners of the box from \<open>(-Width/2, -Depth/2, 0)\<close> to \<open>(Width/2, Depth/2, 1)\<close>.
\<close>

theorem CreateBackdrop_panels:
  assumes w: "0 < Width r" and d: "0 < Depth r"
    and order: "\<forall>m. mset (order m) = mset m"
    and nord: "\<forall>t ns. mset (nord t ns) = mset ns"
  shows "\<exists>walls. CreateBackdrop r order nord = Inr walls
    \<and> length walls = 6
    \<and> (\<forall>w \<in> set walls. length w = 2
          \<and> (\<exists>t n. w = [t, n]
                \<and> n \<in> set (Neighbors (NewMeshRect \<lparr>X = - Width r / 2, Y = - Depth r / 2, Z = 0\<rparr>
                                  \<lparr>X = Width r / 2, Y = Depth r / 2, Z = 1\<rparr>) t)
                \<and> 99 / 100 < Dot (Normal n) (Normal t)))
    \<and> (\<Union>w \<in> set walls. set (Mesh_coords w))
        = set (Mesh_coords (NewMeshRect \<lparr>X = - Width r / 2, Y = - Depth r / 2, Z = 0\<rparr>
                                  \<lparr>X = Width r / 2, Y = Depth r / 2, Z = 1\<rparr>))
    \<and> set (Mesh_coords (NewMeshRect \<lparr>X = - Width r / 2, Y = - Depth r / 2, Z = 0\<rparr>
                                  \<lparr>X = Width r / 2, Y = Depth r / 2, Z = 1\<rparr>))
        = {\<lparr>X = - Width r / 2, Y = - Depth r / 2, Z = 0\<rparr>, \<lparr>X = Width r / 2, Y = - Depth r / 2, Z = 0\<rparr>,
           \<lparr>X = - Width r / 2, Y = Depth r / 2, Z = 0\<rparr>, \<lparr>X = Width r / 2, Y = Depth r / 2, Z = 0\<rparr>,
           \<lparr>X = - Width r / 2, Y = - Depth r / 2, Z = 1\<rparr>, \<lparr>X = Width r / 2, Y = - Depth r / 2, Z = 1\<rparr>,
           \<lparr>X = - Width r / 2, Y = Depth r / 2, Z = 1\<rparr>, \<lparr>X = Width r / 2, Y = Depth r / 2, Z = 1\<rparr>}"
proof -
  let ?box = "NewMeshRect \<lparr>X = - Width r / 2, Y = - Depth r / 2, Z = 0\<rparr>
      \<lparr>X = Width r / 2, Y = Depth r / 2, Z = 1\<rparr>"
  have pos: "- Width r / 2 < Width r / 2" "- Depth r / 2 < Depth r / 2" "(0::real) < 1"
    using w d by simp_all
  have p: "paired ?box"
    using pos by (rule box_paired)
  have "set (order ?box) = set ?box"
    using order by (metis set_mset_mset)
  then have sub: "set ?box \<subseteq> set (order ?box)"
    by simp
  have n: "set (nord t xs) = set xs" for t xs
    using nord by (metis set_mset_mset)
  from Iterate_paired [of nord ?box "order ?box" "[]", OF n p sub]
  obtain ps where ih: "Iterate (backdropVisit nord) (order ?box) (?box, []) = Inr ([], [] @ ps)
      \<and> 2 * length ps = length ?box
      \<and> (\<forall>w \<in> set ps. \<exists>t n. w = [t, n] \<and> coplanarNeighbor ?box t n)
      \<and> set (concat ps) = set ?box" ..
  have run: "Iterate (backdropVisit nord) (order ?box) (?box, []) = Inr ([], ps)"
    using ih by simp
  have len: "2 * length ps = length ?box"
    using ih by (elim conjE)
  have each: "\<forall>w \<in> set ps. \<exists>t n. w = [t, n] \<and> coplanarNeighbor ?box t n"
    using ih by (elim conjE)
  have all: "set (concat ps) = set ?box"
    using ih by (elim conjE)
  have r: "CreateBackdrop r order nord = Inr ps"
    unfolding CreateBackdrop_def Let_def run by simp
  have six: "length ps = 6"
    using len by (simp add: box_length)
  have panels: "\<forall>w \<in> set ps. length w = 2
      \<and> (\<exists>t n. w = [t, n] \<and> n \<in> set (Neighbors ?box t) \<and> 99 / 100 < Dot (Normal n) (Normal t))"
  proof
    fix w assume "w \<in> set ps"
    with each have "\<exists>t n. w = [t, n] \<and> coplanarNeighbor ?box t n" ..
    then obtain t n where tn: "w = [t, n]" "coplanarNeighbor ?box t n"
      by (elim exE conjE)
    then have "w = [t, n] \<and> n \<in> set (Neighbors ?box t) \<and> 99 / 100 < Dot (Normal n) (Normal t)"
      unfolding coplanarNeighbor_def by (intro conjI) (elim conjE; assumption)+
    then have "\<exists>t n. w = [t, n] \<and> n \<in> set (Neighbors ?box t) \<and> 99 / 100 < Dot (Normal n) (Normal t)"
      by (intro exI)
    moreover have "length w = 2"
      using tn(1) by simp
    ultimately show "length w = 2
      \<and> (\<exists>t n. w = [t, n] \<and> n \<in> set (Neighbors ?box t) \<and> 99 / 100 < Dot (Normal n) (Normal t))"
      by (intro conjI)
  qed
  have "(\<Union>w \<in> set ps. set (Mesh_coords w)) = set (Mesh_coords (concat ps))"
    by (simp add: Mesh_coords_def)
  also have "\<dots> = set (Mesh_coords ?box)"
    using all by (simp add: Mesh_coords_def)
  finally have verts: "(\<Union>w \<in> set ps. set (Mesh_coords w)) = set (Mesh_coords ?box)" .
  show ?thesis
    by (intro exI [of _ ps] conjI r six panels verts box_corners)
qed


text \<open>
  The hypotheses of C4 hold for width 1 and depth 10 with the triangles and neighbours
  visited in the order of the lists; the panels are the six faces.
\<close>

theorem CreateBackdrop_panels_witness:
  "0 < Width \<lparr>Width = 1, Depth = 10\<rparr> \<and> 0 < Depth \<lparr>Width = 1, Depth = 10\<rparr>
   \<and> (\<forall>m :: Mesh. mset ((\<lambda>m. m) m) = mset m)
   \<and> (\<forall>(t :: Triangle) ns :: Triangle list. mset ((\<lambda>t ns. ns) t ns) = mset ns)
   \<and> CreateBackdrop \<lparr>Width = 1, Depth = 10\<rparr> (\<lambda>m. m) (\<lambda>t ns. ns) =
       Inr [[(\<lparr>X = - 1 / 2, Y = - 5, Z = 0\<rparr>, \<lparr>X = - 1 / 2, Y = 5, Z = 0\<rparr>, \<lparr>X = 1 / 2, Y = 5, Z = 0\<rparr>),
         (\<lparr>X = - 1 / 2, Y = - 5, Z = 0\<rparr>, \<lparr>X = 1 / 2, Y = 5, Z = 0\<rparr>, \<lparr>X = 1 / 2, Y = - 5, Z = 0\<rparr>)],
        [(\<lparr>X = - 1 / 2, Y = - 5, Z = 1\<rparr>, \<lparr>X = 1 / 2, Y = - 5, Z = 1\<rparr>, \<lparr>X = 1 / 2, Y = 5, Z = 1\<rparr>),
         (\<lparr>X = - 1 / 2, Y = - 5, Z = 1\<rparr>, \<lparr>X = 1 / 2, Y = 5, Z = 1\<rparr>, \<lparr>X = - 1 / 2, Y = 5, Z = 1\<rparr>)],
        [(\<lparr>X = - 1 / 2, Y = - 5, Z = 0\<rparr>, \<lparr>X = 1 / 2, Y = - 5, Z = 0\<rparr>, \<lparr>X = 1 / 2, Y = - 5, Z = 1\<rparr>),
         (\<lparr>X = - 1 / 2, Y = - 5, Z = 0\<rparr>, \<lparr>X = 1 / 2, Y = - 5, Z = 1\<rparr>, \<lparr>X = - 1 / 2, Y = - 5, Z = 1\<rparr>)],
        [(\<lparr>X = - 1 / 2, Y = 5, Z = 0\<rparr>, \<lparr>X = - 1 / 2, Y = 5, Z = 1\<rparr>, \<lparr>X = 1 / 2, Y = 5, Z = 1\<rparr>),
         (\<lparr>X = - 1 / 2, Y = 5, Z = 0\<rparr>, \<lparr>X = 1 / 2, Y = 5, Z = 1\<rparr>, \<lparr>X = 1 / 2, Y = 5, Z = 0\<rparr>)],
        [(\<lparr>X = - 1 / 2, Y = - 5, Z = 0\<rparr>, \<lparr>X = - 1 / 2, Y = - 5, Z = 1\<rparr>, \<lparr>X = - 1 / 2, Y = 5, Z = 1\<rparr>),
         (\<lparr>X = - 1 / 2, Y = - 5, Z = 0\<rparr>, \<lparr>X = - 1 / 2, Y = 5, Z = 1\<rparr>, \<lparr>X = - 1 / 2, Y = 5, Z = 0\<rparr>)],
        [(\<lparr>X = 1 / 2, Y = - 5, Z = 0\<rparr>, \<lparr>X = 1 / 2, Y = 5, Z = 0\<rparr>, \<lparr>X = 1 / 2, Y = 5, Z = 1\<rparr>),
         (\<lparr>X = 1 / 2, Y = - 5, Z = 0\<rparr>, \<lparr>X = 1 / 2, Y = 5, Z = 1\<rparr>, \<lparr>X = 1 / 2, Y = - 5, Z = 1\<rparr>)]]"
proof -
  have n: "(- 1 / 2 :: real) < 1 / 2" "(- 5 :: real) < 5" "(0 :: real) < 1"
    by simp_all
  have run: "CreateBackdrop \<lparr>Width = 1, Depth = 10\<rparr> (\<lambda>m. m) (\<lambda>t ns. ns) =
       Inr [[(\<lparr>X = - 1 / 2, Y = - 5, Z = 0\<rparr>, \<lparr>X = - 1 / 2, Y = 5, Z = 0\<rparr>, \<lparr>X = 1 / 2, Y = 5, Z = 0\<rparr>),
         (\<lparr>X = - 1 / 2, Y = - 5, Z = 0\<rparr>, \<lparr>X = 1 / 2, Y = 5, Z = 0\<rparr>, \<lparr>X = 1 / 2, Y = - 5, Z = 0\<rparr>)],
        [(\<lparr>X = - 1 / 2, Y = - 5, Z = 1\<rparr>, \<lparr>X = 1 / 2, Y = - 5, Z = 1\<rparr>, \<lparr>X = 1 / 2, Y = 5, Z = 1\<rparr>),
         (\<lparr>X = - 1 / 2, Y = - 5, Z = 1\<rparr>, \<lparr>X = 1 / 2, Y = 5, Z = 1\<rparr>, \<lparr>X = - 1 / 2, Y = 5, Z = 1\<rparr>)],
        [(\<lparr>X = - 1 / 2, Y = - 5, Z = 0\<rparr>, \<lparr>X = 1 / 2, Y = - 5, Z = 0\<rparr>, \<lparr>X = 1 / 2, Y = - 5, Z = 1\<rparr>),
         (\<lparr>X = - 1 / 2, Y = - 5, Z = 0\<rparr>, \<lparr>X = 1 / 2, Y = - 5, Z = 1\<rparr>, \<lparr>X = - 1 / 2, Y = - 5, Z = 1\<rparr>)],
        [(\<lparr>X = - 1 / 2, Y = 5, Z = 0\<rparr>, \<lparr>X = - 1 / 2, Y = 5, Z = 1\<rparr>, \<lparr>X = 1 / 2, Y = 5, Z = 1\<rparr>),
         (\<lparr>X = - 1 / 2, Y = 5, Z = 0\<rparr>, \<lparr>X = 1 / 2, Y = 5, Z = 1\<rparr>, \<lparr>X = 1 / 2, Y = 5, Z = 0\<rparr>)],
        [(\<lparr>X = - 1 / 2, Y = - 5, Z = 0\<rparr>, \<lparr>X = - 1 / 2, Y = - 5, Z = 1\<rparr>, \<lparr>X = - 1 / 2, Y = 5, Z = 1\<rparr>),
         (\<lparr>X = - 1 / 2, Y = - 5, Z = 0\<rparr>, \<lparr>X = - 1 / 2, Y = 5, Z = 1\<rparr>, \<lparr>X = - 1 / 2, Y = 5, Z = 0\<rparr>)],
        [(\<lparr>X = 1 / 2, Y = - 5, Z = 0\<rparr>, \<lparr>X = 1 / 2, Y = 5, Z = 0\<rparr>, \<lparr>X = 1 / 2, Y = 5, Z = 1\<rparr>),
         (\<lparr>X = 1 / 2, Y = - 5, Z = 0\<rparr>, \<lparr>X = 1 / 2, Y = 5, Z = 1\<rparr>, \<lparr>X = 1 / 2, Y = - 5, Z = 1\<rparr>)]]"
    unfolding CreateBackdrop_def Let_def
    by (simp add: box_list backdropVisit_def Neighbors_def Remove_def Triangle_coords_def
        NewMeshTriangles_def box_normals [OF n, simplified] Dot_def)
  show ?thesis
    using CreateBackdrop_panels [of "\<lparr>Width = 1, Depth = 10\<rparr>" "\<lambda>m. m" "\<lambda>t ns. ns"]
    by (simp add: run)
qed

section \<open>Properties of the lights\<close>

declare lightLoop.simps [simp del]

lemma lightLoop_focusProbs:
  "focusProbs (lightLoop light n i v) = focusProbs v @ replicate (n - i) ((3 / 10) / real n)"
proof (induction light n i v rule: lightLoop.induct)
  case (1 light n i v)
  show ?case
  proof (cases "i < n")
    case True
    then have "n - i = Suc (n - Suc i)"
      by simp
    then have rep: "replicate (n - i) x = x # replicate (n - Suc i) x" for x :: real
      by simp
    show ?thesis
      using True "1.IH" [OF True refl refl]
      by (subst lightLoop.simps) (simp add: Let_def rep)
  next
    case False
    then show ?thesis
      by (subst lightLoop.simps) simp
  qed
qed

text \<open>
  C5. For every draw \<open>k\<close> of \<^verbatim>\<open>rand.Intn(5)\<close> the light count \<open>L = k + 1\<close> lies in
  \<open>[1, 5]\<close>, and after the loop over the lights, started with no focus probabilities,
  the list of focus probabilities has length \<open>L\<close>, every entry is \<open>0.3 / L\<close>, and the
  entries sum to \<open>0.3\<close>.
\<close>

theorem RandomScene_focusProbs:
  assumes "k < 5"
  shows "1 \<le> numLights k \<and> numLights k \<le> 5
    \<and> focusProbs (lightLoop light (numLights k) 0 \<lparr>objects = objs, focusPoints = [], focusProbs = []\<rparr>)
        = replicate (numLights k) ((3 / 10) / real (numLights k))
    \<and> length (focusProbs (lightLoop light (numLights k) 0
          \<lparr>objects = objs, focusPoints = [], focusProbs = []\<rparr>)) = numLights k
    \<and> (\<forall>p \<in> set (focusProbs (lightLoop light (numLights k) 0
          \<lparr>objects = objs, focusPoints = [], focusProbs = []\<rparr>)). p = (3 / 10) / real (numLights k))
    \<and> sum_list (focusProbs (lightLoop light (numLights k) 0
          \<lparr>objects = objs, focusPoints = [], focusProbs = []\<rparr>)) = 3 / 10"
proof -
  let ?L = "numLights k"
  let ?ps = "focusProbs (lightLoop light ?L 0 \<lparr>objects = objs, focusPoints = [], focusProbs = []\<rparr>)"
  have L: "1 \<le> ?L" "?L \<le> 5"
    using assms by (simp_all add: numLights_def)
  have ps: "?ps = replicate ?L ((3 / 10) / real ?L)"
    by (simp add: lightLoop_focusProbs)
  have "sum_list ?ps = real ?L * ((3 / 10) / real ?L)"
    unfolding ps by (simp add: sum_list_replicate)
  also have "\<dots> = 3 / 10"
    using L by simp
  finally have total: "sum_list ?ps = 3 / 10" .
  have len: "length ?ps = ?L"
    unfolding ps by simp
  have each: "\<forall>p \<in> set ?ps. p = (3 / 10) / real ?L"
    unfolding ps by simp
  from L ps len each total show ?thesis
    by blast
qed

text \<open>The hypothesis of C5 holds for the draw 2, that is for three lights.\<close>

theorem RandomScene_focusProbs_witness:
  "(2::nat) < 5
   \<and> focusProbs (lightLoop (\<lambda>i. Sphere \<lparr>X = 0, Y = 0, Z = 1\<rparr> (1 / 10)) (numLights 2) 0
        \<lparr>objects = [], focusPoints = [], focusProbs = []\<rparr>) = [1 / 10, 1 / 10, 1 / 10]
   \<and> sum_list (focusProbs (lightLoop (\<lambda>i. Sphere \<lparr>X = 0, Y = 0, Z = 1\<rparr> (1 / 10)) (numLights 2) 0
        \<lparr>objects = [], focusPoints = [], focusProbs = []\<rparr>)) = 3 / 10"
  using RandomScene_focusProbs [of 2 "\<lambda>i. Sphere \<lparr>X = 0, Y = 0, Z = 1\<rparr> (1 / 10)" "[]"]
  by (simp add: numLights_def numeral_eq_Suc)


section \<open>Properties of the exposure normaliser\<close>

lemma quantile_index:
  assumes "0 < n"
  shows "nat \<lfloor>real n * (8 / 10)\<rfloor> < n"
proof -
  have "real n * (8 / 10) < real n"
    using assms by simp
  then have "\<lfloor>real n * (8 / 10)\<rfloor> < int n"
    by (simp add: floor_less_iff)
  then show ?thesis
    using assms by simp
qed

lemma quantileBrightness_value:
  assumes "img \<noteq> []"
  shows "quantileBrightness img =
      Inr (sort (map (\<lambda>c. Sum c / 3) img) ! nat \<lfloor>real (length img) * (8 / 10)\<rfloor>)"
  using assms quantile_index [of "length img"] by (simp add: quantileBrightness_def Let_def)



text \<open>
  C8 (as amended). For every non-empty image and every draw \<open>g\<close>, \<open>BrightnessScale\<close>
  returns \<open>max 1 (target / median)\<close>, where \<open>target\<close> is \<open>0.1 * g + 0.3\<close> clamped to
  \<open>[0.1, 0.9]\<close> and \<open>median\<close> is the maximum of \<open>1e-5\<close> and the quantile brightness of
  the image; the result is at least \<open>1\<close>, and it is exactly \<open>1\<close> whenever the quantile
  brightness is at least the target.
\<close>

theorem BrightnessScale_correct:
  assumes "img \<noteq> []"
  shows "\<exists>q. quantileBrightness img = Inr q
      \<and> 1 / 10 \<le> min (9 / 10) (max (1 / 10) (g * (1 / 10) + 3 / 10))
      \<and> min (9 / 10) (max (1 / 10) (g * (1 / 10) + 3 / 10)) \<le> 9 / 10
      \<and> BrightnessScale img g =
          Inr (max 1 (min (9 / 10) (max (1 / 10) (g * (1 / 10) + 3 / 10)) / max (1 / 100000) q))
      \<and> (\<exists>s. BrightnessScale img g = Inr s \<and> 1 \<le> s)
      \<and> (min (9 / 10) (max (1 / 10) (g * (1 / 10) + 3 / 10)) \<le> q \<longrightarrow>
            BrightnessScale img g = Inr 1)"
proof -
  let ?target = "min (9 / 10) (max (1 / 10) (g * (1 / 10) + 3 / 10))"
  obtain q where q: "quantileBrightness img = Inr q"
    using quantileBrightness_value [OF assms] by blast
  have t: "1 / 10 \<le> ?target" "?target \<le> 9 / 10"
    by (simp_all add: min_def max_def)
  have run: "BrightnessScale img g = Inr (max 1 (?target / max (1 / 100000) q))"
    by (simp add: BrightnessScale_def q Let_def)
  have ge: "\<exists>s. BrightnessScale img g = Inr s \<and> 1 \<le> s"
    unfolding run by simp
  have bright: "BrightnessScale img g = Inr 1" if le: "?target \<le> q"
  proof -
    have qpos: "1 / 100000 \<le> q"
      using t(1) le by linarith
    then have med: "max (1 / 100000) q = q"
      by simp
    have "0 < q"
      using qpos by linarith
    with le have "?target / q \<le> 1"
      by (simp only: divide_le_eq_1_pos)
    then have "max 1 (?target / q) = 1"
      by simp
    then show ?thesis
      unfolding run med by simp
  qed
  from q t run ge bright show ?thesis
    by blast
qed

text \<open>The hypothesis of C8 (as amended) holds for an image of one white pixel.\<close>

theorem BrightnessScale_correct_witness:
  "[\<lparr>X = 1, Y = 1, Z = 1\<rparr>] \<noteq> []
   \<and> quantileBrightness [\<lparr>X = 1, Y = 1, Z = 1\<rparr>] = Inr 1
   \<and> BrightnessScale [\<lparr>X = 1, Y = 1, Z = 1\<rparr>] 0 = Inr 1"
proof -
  have q: "quantileBrightness [\<lparr>X = 1, Y = 1, Z = 1\<rparr>] = Inr 1"
    by (simp add: quantileBrightness_def Sum_def)
  show ?thesis
    using BrightnessScale_correct [of "[\<lparr>X = 1, Y = 1, Z = 1\<rparr>]" 0] by (simp add: q)
qed

text \<open>
  The claim C8 as stated fails: for the image without pixels the index \<open>0\<close> is out of
  range, \<open>quantileBrightness\<close> panics and \<open>BrightnessScale\<close> returns no scale.
\<close>

theorem BrightnessScale_empty_counterexample:
  "quantileBrightness [] = Inl IndexOutOfRange \<and> BrightnessScale [] 0 = Inl IndexOutOfRange"
  by (simp add: BrightnessScale_def quantileBrightness_def)

section \<open>Properties of the rectified linear unit\<close>







end
